theory Spec2Isabelle
  imports Main "HOL-Library.Word" "HOL-Library.Sublist"
begin

section \<open>Strings of the host language\<close>

text \<open>
  A JavaScript string is a sequence of 16-bit code units. The literals of the source are
  ASCII, so \<open>js\<close> writes one from an Isabelle string, one code unit per character.
\<close>

type_synonym jsstring = "16 word list"

definition js :: "string \<Rightarrow> jsstring" where
  "js s = map of_char s"

text \<open>
  \<open>String.prototype.trim\<close> removes, at both ends, the code units of the grammar's
  WhiteSpace and LineTerminator productions: TAB, LF, VT, FF, CR, SPACE, NBSP, U+1680,
  U+2000 to U+200A, U+2028, U+2029, U+202F, U+205F, U+3000 and U+FEFF.
\<close>

definition isWhiteSpace :: "16 word \<Rightarrow> bool" where
  "isWhiteSpace c =
     (c = 0x09 \<or> c = 0x0A \<or> c = 0x0B \<or> c = 0x0C \<or> c = 0x0D \<or> c = 0x20 \<or> c = 0xA0
      \<or> c = 0x1680 \<or> (0x2000 \<le> c \<and> c \<le> 0x200A) \<or> c = 0x2028 \<or> c = 0x2029
      \<or> c = 0x202F \<or> c = 0x205F \<or> c = 0x3000 \<or> c = 0xFEFF)"

definition trim :: "jsstring \<Rightarrow> jsstring" where
  "trim s = rev (dropWhile isWhiteSpace (rev (dropWhile isWhiteSpace s)))"

text \<open>\<open>Array.prototype.join\<close> on an array of strings.\<close>

fun join :: "jsstring \<Rightarrow> jsstring list \<Rightarrow> jsstring" where
  "join sep [] = []"
| "join sep [x] = x"
| "join sep (x # y # ys) = x @ sep @ join sep (y # ys)"

section \<open>Field Transformer and Submission Validator (utils.js)\<close>

text \<open>
  A plain object with string values is the list of its own enumerable properties, in the
  order \<open>Object.entries\<close> enumerates them; the keys of an object are distinct. The values
  are strings, as the entries of a form without file inputs are.
\<close>

type_synonym jsobject = "(jsstring \<times> jsstring) list"

text \<open>
  The field objects grow by spreading: the literal of \<open>transformAndValidateFields\<close> has
  \<open>name\<close>, \<open>value\<close> and \<open>required\<close>, \<open>transformField\<close> adds \<open>isEmpty\<close> and
  \<open>validateField\<close> adds \<open>isValid\<close>. Each stage is a record of its own.
\<close>

record raw_field =
  name :: jsstring
  "value" :: jsstring
  required :: bool

record transformed_field = raw_field +
  isEmpty :: bool

record field = transformed_field +
  isValid :: bool

definition transformField :: "raw_field \<Rightarrow> transformed_field" where
  "transformField f =
     \<lparr>name = name f, value = trim (value f), required = required f,
      isEmpty = (length (trim (value f)) = 0)\<rparr>"

definition validateField :: "transformed_field \<Rightarrow> field" where
  "validateField f =
     \<lparr>name = name f, value = value f, required = required f, isEmpty = isEmpty f,
      isValid = (\<not> isEmpty f)\<rparr>"

definition findEmptyRequiredFields :: "field list \<Rightarrow> field list" where
  "findEmptyRequiredFields fs = filter (\<lambda>f. isEmpty f \<and> required f) fs"

definition findFirstError :: "field list \<Rightarrow> field option" where
  "findFirstError validationResults = find (\<lambda>r. \<not> isValid r) validationResults"

definition transformAndValidateFields :: "jsobject \<Rightarrow> jsstring list \<Rightarrow> field list" where
  "transformAndValidateFields formData requiredFields =
     map validateField
       (map transformField
          (map (\<lambda>(n, v). \<lparr>name = n, value = v, required = (n \<in> set requiredFields)\<rparr>)
             formData))"

record validation =
  shouldProceed :: bool
  errors :: "jsstring list"
  validationResults :: "field list"

definition validateSubmission :: "jsobject \<Rightarrow> jsstring list \<Rightarrow> validation" where
  "validateSubmission formData requiredFields =
     (let validationResults = transformAndValidateFields formData requiredFields;
          errs = filter (\<lambda>r. \<not> isValid r) validationResults
      in \<lparr>shouldProceed = (length errs = 0),
          errors = map name errs,
          validationResults = validationResults\<rparr>)"

section \<open>API Client (utils.js)\<close>

text \<open>
  A parsed JSON value. A number is the bit pattern of its IEEE 754 double, which is all
  that truthiness needs: \<open>+0\<close>, \<open>-0\<close> and NaN are falsy.
\<close>

datatype json =
    JNull
  | JBool bool
  | JNum "64 word"
  | JStr jsstring
  | JArr "json list"
  | JObj "(jsstring \<times> json) list"

definition falsyNumber :: "64 word \<Rightarrow> bool" where
  "falsyNumber d =
     (let m = and d 0x7FFFFFFFFFFFFFFF in m = 0 \<or> 0x7FF0000000000000 < m)"

fun truthy :: "json \<Rightarrow> bool" where
  "truthy JNull = False"
| "truthy (JBool b) = b"
| "truthy (JNum d) = (\<not> falsyNumber d)"
| "truthy (JStr s) = (s \<noteq> [])"
| "truthy (JArr xs) = True"
| "truthy (JObj ps) = True"

text \<open>
  \<open>data?.message\<close>: \<open>None\<close> is \<open>undefined\<close>. Only an object can own the property;
  \<open>null\<close> short-circuits, and the prototypes of the other values have no \<open>message\<close>.
\<close>

fun getMessage :: "json \<Rightarrow> json option" where
  "getMessage (JObj ps) = map_of ps (js ''message'')"
| "getMessage v = None"

text \<open>
  An error object, as \<open>fetch\<close> and \<open>response.json()\<close> reject with: its name and message.
  Being an object, it is truthy.
\<close>

datatype jserror = JSError jsstring jsstring

text \<open>
  The request options of \<open>fetch\<close>. \<open>body\<close> holds the object whose JSON text is sent
  (the text itself, \<open>JSON.stringify(data)\<close>, is not spelled out).
\<close>

record request =
  "method" :: jsstring
  headers :: "(jsstring \<times> jsstring) list"
  body :: jsobject

definition createRequestPayload :: "jsobject \<Rightarrow> jsstring option \<Rightarrow> request" where
  "createRequestPayload d m =
     \<lparr>method = (case m of None \<Rightarrow> js ''POST'' | Some x \<Rightarrow> x),
      headers = [(js ''Content-Type'', js ''application/json''),
                 (js ''Accept'', js ''application/json'')],
      body = d\<rparr>"

record response =
  status :: "nat option"
  success :: bool
  message :: json
  data :: json
  error :: "jserror option"

definition createResponseObject :: "nat option \<Rightarrow> json \<Rightarrow> jserror option \<Rightarrow> response" where
  "createResponseObject st d err =
     \<lparr>status = st,
      success = (st = Some 200),
      message =
        (let dflt = JStr (if err \<noteq> None then js ''Something went wrong!'' else js ''Success'')
         in case getMessage d of
              None \<Rightarrow> dflt
            | Some m \<Rightarrow> if truthy m then m else dflt),
      data = d,
      error = err\<rparr>"

text \<open>
  What the network does with one request: \<open>fetch\<close> rejects, or it resolves with a status
  and a body that \<open>response.json()\<close> parses or rejects.
\<close>

datatype body_outcome = Unparsable jserror | Parsed json

datatype fetch_outcome = Rejected jserror | Responded nat body_outcome

text \<open>
  The calls into the host, in the order they are made: \<open>focus()\<close> on an element,
  \<open>form.reset()\<close>, \<open>fetch\<close>, \<open>setTimeout\<close> with its delay, \<open>console.error\<close>. What the
  host does in response (moving the focus, restoring the controls, running the timer) is
  its own.
\<close>

datatype event =
    Focus nat
  | FormReset
  | Fetch jsstring request
  | SetTimeout int
  | ConsoleError jserror

text \<open>The \<open>try\<close> block of \<open>submitFormToAPI\<close>: \<open>Inl\<close> is what it throws.\<close>

definition submitTry :: "jsobject \<Rightarrow> jsstring \<Rightarrow> fetch_outcome \<Rightarrow> jserror + response" where
  "submitTry d url net =
     (case net of
        Rejected e \<Rightarrow> Inl e
      | Responded st b \<Rightarrow>
          (case b of
             Unparsable e \<Rightarrow> Inl e
           | Parsed j \<Rightarrow> Inr (createResponseObject (Some st) j None)))"

text \<open>
  \<open>submitFormToAPI\<close> with its \<open>catch\<close>; it returns the result and the host calls made.
  \<open>Inl\<close> would be an exception leaving the function.
\<close>

definition submitFormToAPI ::
  "jsobject \<Rightarrow> jsstring \<Rightarrow> fetch_outcome \<Rightarrow> jserror + (response \<times> event list)" where
  "submitFormToAPI d url net =
     (let payload = createRequestPayload d None
      in case submitTry d url net of
           Inr r \<Rightarrow> Inr (r, [Fetch url payload])
         | Inl e \<Rightarrow>
             Inr (createResponseObject None JNull (Some e), [Fetch url payload, ConsoleError e]))"

section \<open>Form Adapter (classes.js, FormHandler)\<close>

text \<open>
  The form element as the code sees it: what \<open>checkValidity()\<close> answers, the elements
  matching \<open>:invalid\<close> in document order, the entry list a \<open>FormData\<close> is built from,
  and the class list.
\<close>

record formElement =
  checkValidity :: bool
  invalidFields :: "nat list"
  entries :: "(jsstring \<times> jsstring) list"
  formClasses :: "jsstring list"

record element =
  innerHTML :: json
  display :: jsstring
  classList :: "jsstring list"

record FormHandler =
  form :: "formElement option"
  fh_resultElement :: "element option"
  isSubmitting :: bool

text \<open>\<open>DOMTokenList.add\<close> and \<open>remove\<close> on a list of distinct tokens.\<close>

definition classList_add :: "jsstring list \<Rightarrow> jsstring \<Rightarrow> jsstring list" where
  "classList_add cl c = (if c \<in> set cl then cl else cl @ [c])"

definition classList_remove :: "jsstring list \<Rightarrow> jsstring \<Rightarrow> jsstring list" where
  "classList_remove cl c = filter (\<lambda>x. x \<noteq> c) cl"

text \<open>
  Property order of an object: array indices (canonical decimal strings up to
  \<open>2^32 - 2\<close>) ascending, then the other keys in creation order.
\<close>

definition isDigit :: "16 word \<Rightarrow> bool" where
  "isDigit c = (0x30 \<le> c \<and> c \<le> 0x39)"

definition digitsValue :: "jsstring \<Rightarrow> int" where
  "digitsValue k = foldl (\<lambda>n c. 10 * n + (uint c - 48)) 0 k"

definition isArrayIndex :: "jsstring \<Rightarrow> bool" where
  "isArrayIndex k =
     (k \<noteq> [] \<and> list_all isDigit k \<and> (hd k \<noteq> 0x30 \<or> length k = 1)
      \<and> length k \<le> 10 \<and> digitsValue k \<le> 4294967294)"

fun insertIndex :: "jsstring \<Rightarrow> jsstring \<Rightarrow> jsobject \<Rightarrow> jsobject" where
  "insertIndex k v [] = [(k, v)]"
| "insertIndex k v ((k', v') # ps) =
     (if isArrayIndex k' \<and> digitsValue k' < digitsValue k
      then (k', v') # insertIndex k v ps
      else (k, v) # (k', v') # ps)"

text \<open>
  \<open>acc[key] = value\<close> on a plain object. Assigning a string to \<open>__proto__\<close> runs the
  inherited setter, which ignores it: no property is created.
\<close>

definition setProp :: "jsobject \<Rightarrow> jsstring \<Rightarrow> jsstring \<Rightarrow> jsobject" where
  "setProp acc k v =
     (if k = js ''__proto__'' then acc
      else if k \<in> fst ` set acc then map (\<lambda>(k', v'). if k' = k then (k', v) else (k', v')) acc
      else if isArrayIndex k then insertIndex k v acc
      else acc @ [(k, v)])"

definition formDataToObject :: "(jsstring \<times> jsstring) list \<Rightarrow> jsobject" where
  "formDataToObject fd = foldl (\<lambda>acc (k, v). setProp acc k v) [] fd"

definition getInvalidFields :: "formElement option \<Rightarrow> nat list" where
  "getInvalidFields f = (case f of None \<Rightarrow> [] | Some x \<Rightarrow> invalidFields x)"

text \<open>\<open>isValid()\<close> returns \<open>this.form && this.form.checkValidity()\<close>: \<open>None\<close> is \<open>null\<close>.\<close>

definition FormHandler_isValid :: "FormHandler \<Rightarrow> bool option" where
  "FormHandler_isValid fh = (case form fh of None \<Rightarrow> None | Some f \<Rightarrow> Some (checkValidity f))"

definition reset :: "FormHandler \<Rightarrow> FormHandler \<times> event list" where
  "reset fh =
     (case form fh of
        None \<Rightarrow> (fh, [])
      | Some f \<Rightarrow>
          (fh\<lparr>form := Some (f\<lparr>formClasses := classList_remove (formClasses f) (js ''was-validated'')\<rparr>)\<rparr>,
           [FormReset]))"

definition addValidationClass :: "FormHandler \<Rightarrow> FormHandler" where
  "addValidationClass fh =
     (case form fh of
        None \<Rightarrow> fh
      | Some f \<Rightarrow>
          fh\<lparr>form := Some (f\<lparr>formClasses := classList_add (formClasses f) (js ''was-validated'')\<rparr>)\<rparr>)"

definition focusInvalidField :: "FormHandler \<Rightarrow> event list" where
  "focusInvalidField fh =
     (case find (\<lambda>x. True) (getInvalidFields (form fh)) of
        None \<Rightarrow> []
      | Some invalidField \<Rightarrow> [Focus invalidField])"

text \<open>\<open>new FormData(null)\<close> throws a TypeError.\<close>

definition getFormData :: "FormHandler \<Rightarrow> jserror + jsobject" where
  "getFormData fh =
     (case form fh of
        None \<Rightarrow> Inl (JSError (js ''TypeError'') (js ''parameter 1 is not of type HTMLFormElement''))
      | Some f \<Rightarrow> Inr (formDataToObject (entries f)))"

section \<open>Status Presenter (classes.js, ResponseHandler)\<close>

text \<open>
  \<open>innerHTML\<close> holds the value last assigned to it; what the host makes of it (string
  conversion, parsing as markup) is not part of the model.
\<close>

record classConfig =
  toRemove :: "jsstring list option"
  toAdd :: "jsstring list option"

definition updateElementClasses :: "jsstring list \<Rightarrow> classConfig \<Rightarrow> jsstring list" where
  "updateElementClasses cl cfg =
     (let rm = (case toRemove cfg of None \<Rightarrow> [] | Some xs \<Rightarrow> xs);
          ad = (case toAdd cfg of None \<Rightarrow> [] | Some xs \<Rightarrow> xs)
      in foldl classList_add (foldl classList_remove cl rm) ad)"

text \<open>
  \<open>classConfigs[status] || classConfigs.error\<close>. A status that names a property
  inherited from \<open>Object.prototype\<close> yields that (truthy) value, which has neither
  \<open>toRemove\<close> nor \<open>toAdd\<close>.
\<close>

definition objectPrototypeKeys :: "jsstring list" where
  "objectPrototypeKeys =
     [js ''constructor'', js ''hasOwnProperty'', js ''isPrototypeOf'',
      js ''propertyIsEnumerable'', js ''toLocaleString'', js ''toString'', js ''valueOf'',
      js ''__proto__'', js ''__defineGetter__'', js ''__defineSetter__'',
      js ''__lookupGetter__'', js ''__lookupSetter__'']"

definition getClassConfig :: "jsstring \<Rightarrow> classConfig" where
  "getClassConfig st =
     (if st = js ''loading'' then
        \<lparr>toRemove = Some [js ''text-green-500'', js ''text-red-500''],
         toAdd = Some [js ''text-gray-500'']\<rparr>
      else if st = js ''success'' then
        \<lparr>toRemove = Some [js ''text-gray-500'', js ''text-red-500''],
         toAdd = Some [js ''text-green-500'']\<rparr>
      else if st = js ''error'' then
        \<lparr>toRemove = Some [js ''text-gray-500'', js ''text-green-500''],
         toAdd = Some [js ''text-red-500'']\<rparr>
      else if st \<in> set objectPrototypeKeys then \<lparr>toRemove = None, toAdd = None\<rparr>
      else
        \<lparr>toRemove = Some [js ''text-gray-500'', js ''text-green-500''],
         toAdd = Some [js ''text-red-500'']\<rparr>)"

record statusMessage =
  content :: json
  msgStatus :: jsstring
  timestamp :: int

definition createMessage :: "json \<Rightarrow> jsstring \<Rightarrow> int \<Rightarrow> statusMessage" where
  "createMessage c st now = \<lparr>content = c, msgStatus = st, timestamp = now\<rparr>"

record ResponseHandler =
  resultElement :: "element option"
  messageHistory :: "statusMessage list"

text \<open>
  The states \<open>displayMessage\<close> passes through, one per assignment, in the order of the
  source: the history, \<open>innerHTML\<close>, \<open>style.display\<close>, the class list. With no result
  element it returns at once and passes through none. \<open>now\<close> is the clock reading of
  \<open>createMessage\<close>.
\<close>

definition displayMessage_steps ::
  "int \<Rightarrow> json \<Rightarrow> jsstring \<Rightarrow> ResponseHandler \<Rightarrow> ResponseHandler list" where
  "displayMessage_steps now msg st rh =
     (case resultElement rh of
        None \<Rightarrow> []
      | Some el \<Rightarrow>
          (let messageObj = createMessage msg st now;
               rh1 = rh\<lparr>messageHistory := messageHistory rh @ [messageObj]\<rparr>;
               el2 = el\<lparr>innerHTML := msg\<rparr>;
               el3 = el2\<lparr>display := js ''block''\<rparr>;
               cfg = getClassConfig st;
               el4 = el3\<lparr>classList := updateElementClasses (classList el3) cfg\<rparr>
           in [rh1,
               rh1\<lparr>resultElement := Some el2\<rparr>,
               rh1\<lparr>resultElement := Some el3\<rparr>,
               rh1\<lparr>resultElement := Some el4\<rparr>]))"

definition displayMessage ::
  "int \<Rightarrow> json \<Rightarrow> jsstring \<Rightarrow> ResponseHandler \<Rightarrow> ResponseHandler" where
  "displayMessage now msg st rh = last (rh # displayMessage_steps now msg st rh)"

definition showLoading :: "int \<Rightarrow> ResponseHandler \<Rightarrow> ResponseHandler" where
  "showLoading now rh = displayMessage now (JStr (js ''Please wait...'')) (js ''loading'') rh"

definition showSuccess :: "int \<Rightarrow> json \<Rightarrow> ResponseHandler \<Rightarrow> ResponseHandler" where
  "showSuccess now msg rh = displayMessage now msg (js ''success'') rh"

definition showError :: "int \<Rightarrow> json \<Rightarrow> ResponseHandler \<Rightarrow> ResponseHandler" where
  "showError now msg rh = displayMessage now msg (js ''error'') rh"

text \<open>\<open>!status || msg.status === status\<close>: an absent or empty filter keeps everything.\<close>

definition getMessageHistory :: "jsstring option \<Rightarrow> ResponseHandler \<Rightarrow> json list" where
  "getMessageHistory st rh =
     map content
       (filter (\<lambda>m. (case st of None \<Rightarrow> True | Some s \<Rightarrow> s = [] \<or> msgStatus m = s))
          (messageHistory rh))"

definition getLastMessage :: "ResponseHandler \<Rightarrow> statusMessage option" where
  "getLastMessage rh =
     (if length (messageHistory rh) > 0
      then Some (messageHistory rh ! (length (messageHistory rh) - 1))
      else None)"

text \<open>\<open>hideAfter\<close> only schedules; \<open>hideCallback\<close> is what the timer runs later.\<close>

definition hideAfter :: "int option \<Rightarrow> ResponseHandler \<Rightarrow> event list" where
  "hideAfter delay rh = [SetTimeout (case delay of None \<Rightarrow> 5000 | Some d \<Rightarrow> d)]"

definition hideCallback :: "ResponseHandler \<Rightarrow> ResponseHandler" where
  "hideCallback rh =
     (case resultElement rh of
        None \<Rightarrow> rh
      | Some el \<Rightarrow> rh\<lparr>resultElement := Some (el\<lparr>display := js ''none''\<rparr>)\<rparr>)"

section \<open>Submission Workflow (utils.js, handleFormSubmit)\<close>

text \<open>The \<open>options\<close> argument; \<open>None\<close> is a property left out.\<close>

record options =
  requiredFields :: "jsstring list option"
  resetDelay :: "int option"

text \<open>
  \<open>const { requiredFields = [], resetDelay = 5000 } = options\<close>: the defaults of the
  destructuring.
\<close>

definition optRequiredFields :: "options \<Rightarrow> jsstring list" where
  "optRequiredFields opts = (case requiredFields opts of None \<Rightarrow> [] | Some r \<Rightarrow> r)"

definition optResetDelay :: "options \<Rightarrow> int" where
  "optResetDelay opts = (case resetDelay opts of None \<Rightarrow> 5000 | Some d \<Rightarrow> d)"

text \<open>
  What the host supplies during one run: the clock reading at each of the two messages
  and what the network does with the request.
\<close>

record host =
  clock1 :: int
  clock2 :: int
  network :: fetch_outcome

text \<open>
  The value the promise resolves with, the two handlers afterwards and the host calls
  made, in order. \<open>Inl\<close> is a rejected promise.
\<close>

record outcome =
  returned :: bool
  formHandler :: FormHandler
  responseHandler :: ResponseHandler
  events :: "event list"

definition handleFormSubmit ::
  "host \<Rightarrow> FormHandler \<Rightarrow> ResponseHandler \<Rightarrow> jsstring \<Rightarrow> options \<Rightarrow> jserror + outcome" where
  "handleFormSubmit h fh rh apiUrl opts =
     (let required = optRequiredFields opts;
          delay = optResetDelay opts
      in if FormHandler_isValid fh \<noteq> Some True then
           Inr \<lparr>returned = False,
                formHandler = addValidationClass fh,
                responseHandler = rh,
                events = focusInvalidField fh\<rparr>
         else
           (let rh1 = showLoading (clock1 h) rh
            in case getFormData fh of
                 Inl e \<Rightarrow> Inl e
               | Inr formData \<Rightarrow>
                   (let v = validateSubmission formData required
                    in if \<not> shouldProceed v then
                         Inr \<lparr>returned = False,
                              formHandler = fh,
                              responseHandler =
                                showError (clock2 h)
                                  (JStr (js ''Missing required fields: ''
                                         @ join (js '', '') (errors v)))
                                  rh1,
                              events = hideAfter (Some delay) rh1\<rparr>
                       else
                         (case submitFormToAPI formData apiUrl (network h) of
                            Inl e \<Rightarrow> Inl e
                          | Inr (result, evs) \<Rightarrow>
                              (let rh2 = (if success result
                                          then showSuccess (clock2 h) (message result) rh1
                                          else showError (clock2 h) (message result) rh1);
                                   (fh1, evr) = reset fh
                               in Inr \<lparr>returned = success result,
                                       formHandler = fh1,
                                       responseHandler = rh2,
                                       events = evs @ evr @ hideAfter (Some delay) rh2\<rparr>)))))"

text \<open>The operations of a \<open>ResponseHandler\<close>, and the handler after one of them.\<close>

datatype presenterCall =
    DisplayMessage int json jsstring
  | ShowLoading int
  | ShowSuccess int json
  | ShowError int json
  | GetMessageHistory "jsstring option"
  | GetLastMessage
  | HideAfter "int option"
  | HideCallback

fun call :: "ResponseHandler \<Rightarrow> presenterCall \<Rightarrow> ResponseHandler" where
  "call rh (DisplayMessage now msg st) = displayMessage now msg st rh"
| "call rh (ShowLoading now) = showLoading now rh"
| "call rh (ShowSuccess now msg) = showSuccess now msg rh"
| "call rh (ShowError now msg) = showError now msg rh"
| "call rh (GetMessageHistory st) = rh"
| "call rh GetLastMessage = rh"
| "call rh (HideAfter d) = rh"
| "call rh HideCallback = hideCallback rh"

text \<open>The constructor: \<open>found\<close> is what \<open>document.getElementById\<close> returned.\<close>

definition newResponseHandler :: "element option \<Rightarrow> ResponseHandler" where
  "newResponseHandler found = \<lparr>resultElement = found, messageHistory = []\<rparr>"

definition isFetch :: "event \<Rightarrow> bool" where
  "isFetch e = (case e of Fetch u p \<Rightarrow> True | _ \<Rightarrow> False)"

section \<open>Statements of the specification\<close>



text \<open>
  The specification's reading of the result's message: the body's \<open>message\<close> when the
  body has that property, \<open>Success\<close> otherwise.
\<close>

definition claimedMessage :: "json \<Rightarrow> json" where
  "claimedMessage b = (case getMessage b of None \<Rightarrow> JStr (js ''Success'') | Some m \<Rightarrow> m)"

text \<open>The name-to-value pairs of a sequence of fields, to transform them again.\<close>

definition fieldPairs :: "field list \<Rightarrow> jsobject" where
  "fieldPairs fs = map (\<lambda>f. (name f, value f)) fs"

section \<open>A page to run the workflow on\<close>

text \<open>
  A result element as the page starts with it, a handler around a form with the given
  validity, invalid elements and entries, and the empty \<open>options\<close> object.
\<close>

definition exampleElement :: element where
  "exampleElement = \<lparr>innerHTML = JStr [], display = js ''none'', classList = []\<rparr>"

definition exampleFormHandler ::
  "bool \<Rightarrow> nat list \<Rightarrow> (jsstring \<times> jsstring) list \<Rightarrow> FormHandler" where
  "exampleFormHandler ok bad es =
     \<lparr>form = Some \<lparr>checkValidity = ok, invalidFields = bad, entries = es,
                    formClasses = [js ''contact-form'']\<rparr>,
      fh_resultElement = None, isSubmitting = False\<rparr>"

definition noOptions :: options where
  "noOptions = \<lparr>requiredFields = None, resetDelay = None\<rparr>"

section \<open>Trimming and the validator: auxiliary facts\<close>

lemma dropWhile_fixed: "xs = [] \<or> \<not> P (hd xs) \<Longrightarrow> dropWhile P xs = xs"
  by (cases xs) auto

lemma hd_rev_dropWhile_rev:
  assumes "dropWhile P (rev t) \<noteq> []"
  shows "hd (rev (dropWhile P (rev t))) = hd t"
proof -
  have "rev t = takeWhile P (rev t) @ dropWhile P (rev t)" by simp
  then have "t = rev (dropWhile P (rev t)) @ rev (takeWhile P (rev t))"
    by (metis rev_append rev_rev_ident)
  with assms show ?thesis
    by (metis hd_append2 rev_is_Nil_conv)
qed

lemma trim_idem: "trim (trim s) = trim s"
proof -
  define t where "t = dropWhile isWhiteSpace s"
  define u where "u = dropWhile isWhiteSpace (rev t)"
  have t_hd: "t = [] \<or> \<not> isWhiteSpace (hd t)"
    unfolding t_def by (metis hd_dropWhile)
  have u_hd: "u = [] \<or> \<not> isWhiteSpace (hd u)"
    unfolding u_def by (metis hd_dropWhile)
  have "rev u = [] \<or> \<not> isWhiteSpace (hd (rev u))"
  proof (cases "u = []")
    case True
    then show ?thesis by simp
  next
    case False
    then have "hd (rev u) = hd t" unfolding u_def by (rule hd_rev_dropWhile_rev)
    moreover from False have "t \<noteq> []" unfolding u_def by auto
    ultimately show ?thesis using t_hd by simp
  qed
  then have front: "dropWhile isWhiteSpace (rev u) = rev u" by (rule dropWhile_fixed)
  have rear: "dropWhile isWhiteSpace u = u" using u_hd by (rule dropWhile_fixed)
  have "trim s = rev u" by (simp add: trim_def t_def u_def)
  moreover have "trim (rev u) = rev u" by (simp add: trim_def front rear)
  ultimately show ?thesis by simp
qed

lemma transformAndValidateFields_map:
  "transformAndValidateFields M R =
     map (\<lambda>(k, v). \<lparr>name = k, value = trim v, required = (k \<in> set R),
                      isEmpty = (trim v = []), isValid = (trim v \<noteq> [])\<rparr>) M"
  by (induction M) (auto simp: transformAndValidateFields_def
      transformField_def validateField_def)

lemma validationResults_validateSubmission:
  "validationResults (validateSubmission M R) = transformAndValidateFields M R"
  by (simp add: validateSubmission_def Let_def)

lemma errors_validateSubmission:
  "errors (validateSubmission M R) = map fst (filter (\<lambda>(k, v). trim v = []) M)"
  by (induction M) (auto simp: validateSubmission_def transformAndValidateFields_def
      transformField_def validateField_def Let_def)

lemma shouldProceed_validateSubmission:
  "shouldProceed (validateSubmission M R) = (\<forall>(k, v) \<in> set M. trim v \<noteq> [])"
  by (induction M) (auto simp: validateSubmission_def transformAndValidateFields_def
      transformField_def validateField_def Let_def)

text \<open>
  Transforming is idempotent on every input, trimmed or not, since trimming is.
\<close>

lemma transformAndValidateFields_idem:
  "transformAndValidateFields (fieldPairs (transformAndValidateFields M R)) R
     = transformAndValidateFields M R"
  by (simp add: transformAndValidateFields_map fieldPairs_def trim_idem case_prod_beta)

section \<open>The proceed decision\<close>




section \<open>Order and idempotence of the transformer\<close>

text \<open>
  C8. \<open>transformAndValidateFields\<close> yields one field per entry, named as the entries are
  and in their order; and when every value is already trimmed and non-empty, the
  name-to-value pairs of the result are the entries, and transforming them again gives
  the same fields.
\<close>

theorem transformAndValidateFields_order_idempotent:
  "length (transformAndValidateFields M R) = length M
   \<and> map name (transformAndValidateFields M R) = map fst M
   \<and> ((\<forall>(k, v) \<in> set M. trim v = v \<and> v \<noteq> [])
        \<longrightarrow> fieldPairs (transformAndValidateFields M R) = M
            \<and> transformAndValidateFields (fieldPairs (transformAndValidateFields M R)) R
                = transformAndValidateFields M R)"
proof (intro conjI impI)
  show "length (transformAndValidateFields M R) = length M"
    by (simp add: transformAndValidateFields_map)
  show "map name (transformAndValidateFields M R) = map fst M"
    by (induction M) (auto simp: transformAndValidateFields_map)
next
  assume "\<forall>(k, v) \<in> set M. trim v = v \<and> v \<noteq> []"
  then show "fieldPairs (transformAndValidateFields M R) = M"
    by (induction M) (auto simp: transformAndValidateFields_map fieldPairs_def)
next
  show "transformAndValidateFields (fieldPairs (transformAndValidateFields M R)) R
          = transformAndValidateFields M R"
    by (rule transformAndValidateFields_idem)
qed

theorem transformAndValidateFields_order_idempotent_witness:
  "transformAndValidateFields
     (fieldPairs (transformAndValidateFields
        [(js ''email'', js ''a@b.com''), (js ''message'', js ''hi there'')] [js ''email'']))
     [js ''email'']
   = transformAndValidateFields
        [(js ''email'', js ''a@b.com''), (js ''message'', js ''hi there'')] [js ''email'']
   \<and> fieldPairs (transformAndValidateFields
        [(js ''email'', js ''a@b.com''), (js ''message'', js ''hi there'')] [js ''email''])
     = [(js ''email'', js ''a@b.com''), (js ''message'', js ''hi there'')]"
  using transformAndValidateFields_order_idempotent
          [of "[(js ''email'', js ''a@b.com''), (js ''message'', js ''hi there'')]"
              "[js ''email'']"]
  by (simp add: js_def trim_def isWhiteSpace_def)

section \<open>The required-field list and the decision\<close>

text \<open>
  C9. Two required-field lists give the same decision and the same errors on the same
  entries; the validation results differ in the \<open>required\<close> flag at most. Hence an entry
  that is blank blocks the submission and is listed whether it is required or not, and a
  required name without an entry is never listed and changes nothing.
\<close>

theorem validateSubmission_required_irrelevant:
  "shouldProceed (validateSubmission M R) = shouldProceed (validateSubmission M R')
   \<and> errors (validateSubmission M R) = errors (validateSubmission M R')
   \<and> map (\<lambda>f. f\<lparr>required := c\<rparr>) (validationResults (validateSubmission M R))
       = map (\<lambda>f. f\<lparr>required := c\<rparr>) (validationResults (validateSubmission M R'))
   \<and> ((k, v) \<in> set M \<and> trim v = []
        \<longrightarrow> \<not> shouldProceed (validateSubmission M R)
            \<and> k \<in> set (errors (validateSubmission M R)))
   \<and> (n \<notin> fst ` set M
        \<longrightarrow> n \<notin> set (errors (validateSubmission M (n # R)))
            \<and> shouldProceed (validateSubmission M (n # R))
                = shouldProceed (validateSubmission M []))"
proof (intro conjI impI)
  show "shouldProceed (validateSubmission M R) = shouldProceed (validateSubmission M R')"
    by (simp add: shouldProceed_validateSubmission)
  show "errors (validateSubmission M R) = errors (validateSubmission M R')"
    by (simp add: errors_validateSubmission)
  show "map (\<lambda>f. f\<lparr>required := c\<rparr>) (validationResults (validateSubmission M R))
       = map (\<lambda>f. f\<lparr>required := c\<rparr>) (validationResults (validateSubmission M R'))"
    by (simp add: validationResults_validateSubmission transformAndValidateFields_map
        case_prod_beta)
next
  assume "(k, v) \<in> set M \<and> trim v = []"
  then show "\<not> shouldProceed (validateSubmission M R)"
    by (auto simp: shouldProceed_validateSubmission)
next
  assume "(k, v) \<in> set M \<and> trim v = []"
  then show "k \<in> set (errors (validateSubmission M R))"
    by (force simp: errors_validateSubmission)
next
  assume "n \<notin> fst ` set M"
  then show "n \<notin> set (errors (validateSubmission M (n # R)))"
    by (force simp: errors_validateSubmission)
next
  show "shouldProceed (validateSubmission M (n # R)) = shouldProceed (validateSubmission M [])"
    by (simp add: shouldProceed_validateSubmission)
qed

theorem validateSubmission_required_irrelevant_witness:
  "\<not> shouldProceed (validateSubmission
        [(js ''nickname'', js ''  ''), (js ''email'', js ''a@b.com'')] [js ''email''])
   \<and> js ''phone'' \<notin> set (errors (validateSubmission
        [(js ''nickname'', js ''  ''), (js ''email'', js ''a@b.com'')]
        [js ''phone'', js ''email'']))"
  using validateSubmission_required_irrelevant
          [of "[(js ''nickname'', js ''  ''), (js ''email'', js ''a@b.com'')]"
              "[js ''email'']" "[js ''email'']" True "js ''nickname''" "js ''  ''"
              "js ''phone''"]
  by (simp add: js_def trim_def isWhiteSpace_def)

section \<open>The API client\<close>

lemma submitFormToAPI_Parsed:
  "submitFormToAPI d url (Responded s (Parsed b)) =
     Inr (createResponseObject (Some s) b None, [Fetch url (createRequestPayload d None)])"
  by (simp add: submitFormToAPI_def submitTry_def)

text \<open>
  Whatever the network does, \<open>submitFormToAPI\<close> returns a result, after exactly one
  \<open>fetch\<close>.
\<close>

lemma submitFormToAPI_total:
  "\<exists>result cs.
     submitFormToAPI d url net = Inr (result, Fetch url (createRequestPayload d None) # cs)
     \<and> list_all (\<lambda>e. \<not> isFetch e) cs"
  by (auto simp: submitFormToAPI_def submitTry_def isFetch_def
      split: fetch_outcome.splits body_outcome.splits)

text \<open>
  C3, as the specification states it, fails: the result's message is the body's
  \<open>message\<close> only when that is truthy. A body \<open>{"message": ""}\<close> with status 200 has the
  property, and the result's message is \<open>Success\<close>, not the empty string.
\<close>

theorem submitFormToAPI_empty_message_counterexample:
  "submitFormToAPI [] (js ''/submit'')
       (Responded 200 (Parsed (JObj [(js ''message'', JStr [])])))
     = Inr (\<lparr>status = Some 200, success = True, message = JStr (js ''Success''),
             data = JObj [(js ''message'', JStr [])], error = None\<rparr>,
            [Fetch (js ''/submit'') (createRequestPayload [] None)])
   \<and> claimedMessage (JObj [(js ''message'', JStr [])]) = JStr []
   \<and> JStr (js ''Success'') \<noteq> JStr []"
  by (simp add: submitFormToAPI_Parsed createResponseObject_def claimedMessage_def js_def)

text \<open>
  C3, amended. For a request that completes with status \<open>s\<close> and a body that parses as
  \<open>b\<close>, \<open>submitFormToAPI\<close> returns status \<open>s\<close>, success exactly when \<open>s\<close> is 200, the
  payload \<open>b\<close>, no error, and as message \<open>b.message\<close> when \<open>b\<close> has a truthy \<open>message\<close>
  property and \<open>Success\<close> otherwise.
\<close>

theorem submitFormToAPI_completed:
  "submitFormToAPI d url (Responded s (Parsed b)) =
     Inr (\<lparr>status = Some s,
           success = (s = 200),
           message = (case getMessage b of
                        None \<Rightarrow> JStr (js ''Success'')
                      | Some m \<Rightarrow> if truthy m then m else JStr (js ''Success'')),
           data = b,
           error = None\<rparr>,
          [Fetch url (createRequestPayload d None)])"
  by (simp add: submitFormToAPI_Parsed createResponseObject_def Let_def)

theorem submitFormToAPI_completed_witness:
  "submitFormToAPI [(js ''email'', js ''a@b.com'')] (js ''/submit'')
       (Responded 200 (Parsed (JObj [(js ''message'', JStr (js ''ok''))])))
     = Inr (\<lparr>status = Some 200, success = True, message = JStr (js ''ok''),
             data = JObj [(js ''message'', JStr (js ''ok''))], error = None\<rparr>,
            [Fetch (js ''/submit'') (createRequestPayload [(js ''email'', js ''a@b.com'')] None)])
   \<and> submitFormToAPI [] (js ''/submit'') (Responded 500 (Parsed (JArr [])))
     = Inr (\<lparr>status = Some 500, success = False, message = JStr (js ''Success''),
             data = JArr [], error = None\<rparr>,
            [Fetch (js ''/submit'') (createRequestPayload [] None)])"
  using submitFormToAPI_completed
          [where d = "[(js ''email'', js ''a@b.com'')]" and url = "js ''/submit''"
             and s = 200 and b = "JObj [(js ''message'', JStr (js ''ok''))]"]
        submitFormToAPI_completed
          [where d = "[]" and url = "js ''/submit''" and s = 500 and b = "JArr []"]
  by (simp add: js_def)

text \<open>
  C4. When \<open>fetch\<close> rejects, or the body does not parse, \<open>submitFormToAPI\<close> throws
  nothing: it returns a result with status \<open>null\<close>, success false, the message
  \<open>Something went wrong!\<close>, payload \<open>null\<close> and the caught error.
\<close>

theorem submitFormToAPI_failure_captured:
  "submitFormToAPI d url (Rejected e) =
     Inr (\<lparr>status = None, success = False, message = JStr (js ''Something went wrong!''),
           data = JNull, error = Some e\<rparr>,
          [Fetch url (createRequestPayload d None), ConsoleError e])
   \<and> submitFormToAPI d url (Responded s (Unparsable e)) =
     Inr (\<lparr>status = None, success = False, message = JStr (js ''Something went wrong!''),
           data = JNull, error = Some e\<rparr>,
          [Fetch url (createRequestPayload d None), ConsoleError e])"
  by (simp add: submitFormToAPI_def submitTry_def createResponseObject_def)

theorem submitFormToAPI_failure_captured_witness:
  "submitFormToAPI [(js ''email'', js ''a@b.com'')] (js ''/submit'')
      (Rejected (JSError (js ''TypeError'') (js ''Failed to fetch'')))
   = Inr (\<lparr>status = None, success = False, message = JStr (js ''Something went wrong!''),
           data = JNull, error = Some (JSError (js ''TypeError'') (js ''Failed to fetch''))\<rparr>,
          [Fetch (js ''/submit'') (createRequestPayload [(js ''email'', js ''a@b.com'')] None),
           ConsoleError (JSError (js ''TypeError'') (js ''Failed to fetch''))])"
  using submitFormToAPI_failure_captured
          [where d = "[(js ''email'', js ''a@b.com'')]" and url = "js ''/submit''"
             and e = "JSError (js ''TypeError'') (js ''Failed to fetch'')"]
  by simp

section \<open>The status presenter\<close>

lemma messageHistory_displayMessage:
  "messageHistory (displayMessage now msg st rh) =
     (if resultElement rh = None then messageHistory rh
      else messageHistory rh @ [createMessage msg st now])"
  by (simp add: displayMessage_def displayMessage_steps_def Let_def split: option.splits)

lemma displayMessage_None:
  "resultElement rh = None \<Longrightarrow> displayMessage now msg st rh = rh"
  by (simp add: displayMessage_def displayMessage_steps_def)



lemma messageHistory_hideCallback: "messageHistory (hideCallback rh) = messageHistory rh"
  by (simp add: hideCallback_def split: option.splits)

lemma call_None: "resultElement rh = None \<Longrightarrow> call rh c = rh"
  by (cases c) (simp_all add: showLoading_def showSuccess_def showError_def
      displayMessage_None hideCallback_def)

lemma calls_None: "resultElement rh = None \<Longrightarrow> foldl call rh cs = rh"
  by (induction cs) (simp_all add: call_None)

lemma prefix_call: "prefix (messageHistory rh) (messageHistory (call rh c))"
  by (cases c) (simp_all add: showLoading_def showSuccess_def showError_def
      messageHistory_displayMessage messageHistory_hideCallback)

lemma prefix_calls: "prefix (messageHistory rh) (messageHistory (foldl call rh cs))"
proof (induction cs arbitrary: rh)
  case Nil
  then show ?case by simp
next
  case (Cons c cs)
  have "prefix (messageHistory rh) (messageHistory (call rh c))" by (rule prefix_call)
  also have "prefix (messageHistory (call rh c)) (messageHistory (foldl call (call rh c) cs))"
    by (rule Cons.IH)
  finally show ?case by simp
qed

text \<open>
  C7, as the specification states it, fails: on a handler without a result element
  \<open>showLoading\<close> appends nothing.
\<close>

theorem showLoading_without_element_counterexample:
  "messageHistory (showLoading 0 \<lparr>resultElement = None, messageHistory = []\<rparr>) = []"
  by (simp add: showLoading_def displayMessage_None)

text \<open>
  C7, amended. On a handler that has a result element, each of \<open>showLoading\<close>,
  \<open>showSuccess\<close> and \<open>showError\<close> appends exactly one message at the end of the history,
  and does so before the element is touched: the first state \<open>displayMessage\<close> passes
  through is the old one with the longer history, and every later state has that history.
  No sequence of operations, on any handler, changes or removes an entry: the old history
  is a prefix of the new one.
\<close>

theorem show_appends_one_message:
  "(resultElement rh \<noteq> None \<longrightarrow>
      messageHistory (showLoading now rh)
        = messageHistory rh @ [createMessage (JStr (js ''Please wait...'')) (js ''loading'') now]
    \<and> messageHistory (showSuccess now msg rh)
        = messageHistory rh @ [createMessage msg (js ''success'') now]
    \<and> messageHistory (showError now msg rh)
        = messageHistory rh @ [createMessage msg (js ''error'') now]
    \<and> displayMessage_steps now msg st rh \<noteq> []
    \<and> hd (displayMessage_steps now msg st rh)
        = rh\<lparr>messageHistory := messageHistory rh @ [createMessage msg st now]\<rparr>
    \<and> list_all (\<lambda>s. messageHistory s = messageHistory rh @ [createMessage msg st now])
         (displayMessage_steps now msg st rh))
   \<and> prefix (messageHistory rh) (messageHistory (foldl call rh cs))"
proof (intro conjI impI)
  show "prefix (messageHistory rh) (messageHistory (foldl call rh cs))"
    by (rule prefix_calls)
qed (auto simp: showLoading_def showSuccess_def showError_def messageHistory_displayMessage
      displayMessage_steps_def Let_def)

theorem show_appends_one_message_witness:
  "messageHistory (showError 5 (JStr (js ''no''))
      \<lparr>resultElement = Some exampleElement,
       messageHistory = [createMessage (JStr (js ''Please wait...'')) (js ''loading'') 1]\<rparr>)
   = [createMessage (JStr (js ''Please wait...'')) (js ''loading'') 1,
      createMessage (JStr (js ''no'')) (js ''error'') 5]"
  using show_appends_one_message
          [where rh = "\<lparr>resultElement = Some exampleElement,
               messageHistory = [createMessage (JStr (js ''Please wait...'')) (js ''loading'') 1]\<rparr>"
             and now = 5 and msg = "JStr (js ''no'')" and st = "js ''error''" and cs = "[]"]
  by simp

text \<open>
  C10. On a handler whose result element is \<open>null\<close>, \<open>displayMessage\<close> returns at once:
  it passes through no state, and it, \<open>showLoading\<close>, \<open>showSuccess\<close> and \<open>showError\<close> leave
  the handler as it was, history included. So does every sequence of operations.
\<close>

theorem displayMessage_without_element:
  assumes "resultElement rh = None"
  shows "displayMessage now msg st rh = rh
     \<and> displayMessage_steps now msg st rh = []
     \<and> showLoading now rh = rh
     \<and> showSuccess now msg rh = rh
     \<and> showError now msg rh = rh
     \<and> foldl call rh cs = rh"
  using assms
  by (simp add: showLoading_def showSuccess_def showError_def displayMessage_None
      displayMessage_steps_def calls_None)

theorem displayMessage_without_element_witness:
  "showError 9 (JStr (js ''Missing required fields: email''))
      (showLoading 8 (newResponseHandler None))
     = newResponseHandler None
   \<and> messageHistory (showSuccess 9 (JStr (js ''ok'')) (newResponseHandler None)) = []"
  using displayMessage_without_element
          [where rh = "newResponseHandler None" and now = 8 and msg = JNull and st = "[]"
             and cs = "[]"]
        displayMessage_without_element
          [where rh = "newResponseHandler None" and now = 9
             and msg = "JStr (js ''Missing required fields: email'')" and st = "[]"
             and cs = "[]"]
        displayMessage_without_element
          [where rh = "newResponseHandler None" and now = 9
             and msg = "JStr (js ''ok'')" and st = "[]" and cs = "[]"]
  by (simp add: newResponseHandler_def)

section \<open>The form adapter\<close>

text \<open>The object built from the entries of a form has distinct keys.\<close>

lemma keys_insertIndex: "set (map fst (insertIndex k v ps)) = insert k (set (map fst ps))"
  by (induction ps) (simp, force)

lemma distinct_insertIndex:
  "k \<notin> set (map fst ps) \<Longrightarrow> distinct (map fst ps)
   \<Longrightarrow> distinct (map fst (insertIndex k v ps))"
proof (induction ps)
  case Nil
  then show ?case by simp
next
  case (Cons p ps)
  obtain k' v' where p: "p = (k', v')" by (cases p)
  from Cons.prems have "k' \<notin> set (map fst (insertIndex k v ps))"
    unfolding keys_insertIndex by (auto simp: p)
  with Cons show ?case by (auto simp: p)
qed

lemma keys_overwrite:
  "map fst (map (\<lambda>(k', v'). if k' = k then (k', v) else (k', v')) acc) = map fst acc"
  by (induction acc) auto

lemma distinct_setProp:
  assumes "distinct (map fst acc)"
  shows "distinct (map fst (setProp acc k v))"
  using assms unfolding setProp_def
  by (simp add: keys_overwrite distinct_insertIndex del: map_map)

lemma distinct_foldl_setProp:
  "distinct (map fst acc) \<Longrightarrow>
   distinct (map fst (foldl (\<lambda>acc (k, v). setProp acc k v) acc fd))"
  by (induction fd arbitrary: acc) (auto simp: distinct_setProp)

lemma distinct_formDataToObject: "distinct (map fst (formDataToObject fd))"
  by (simp add: formDataToObject_def distinct_foldl_setProp)

lemma getFormData_valid:
  "FormHandler_isValid fh = Some b \<Longrightarrow>
   \<exists>f. form fh = Some f \<and> checkValidity f = b
       \<and> getFormData fh = Inr (formDataToObject (entries f))"
  by (auto simp: FormHandler_isValid_def getFormData_def split: option.splits)

section \<open>The submission workflow\<close>

text \<open>
  A handler without a form: \<open>isValid()\<close> is \<open>null\<close>, the workflow returns false, and
  there is nothing to focus or to mark.
\<close>

lemma handleFormSubmit_no_form:
  "form fh = None \<Longrightarrow>
   handleFormSubmit h fh rh apiUrl opts =
     Inr \<lparr>returned = False, formHandler = fh, responseHandler = rh, events = []\<rparr>"
  by (simp add: handleFormSubmit_def Let_def FormHandler_isValid_def addValidationClass_def
      focusInvalidField_def getInvalidFields_def)

text \<open>The workflow always resolves: no path of it throws.\<close>

lemma handleFormSubmit_total:
  "\<exists>out. handleFormSubmit h fh rh apiUrl opts = Inr out"
proof (cases "FormHandler_isValid fh = Some True")
  case False
  then show ?thesis by (simp add: handleFormSubmit_def Let_def)
next
  case True
  from getFormData_valid [OF True]
  obtain f :: formElement where g: "getFormData fh = Inr (formDataToObject (entries f))"
    by blast
  from submitFormToAPI_total [of "formDataToObject (entries f)" apiUrl "network h"]
  obtain result cs where
    "submitFormToAPI (formDataToObject (entries f)) apiUrl (network h)
       = Inr (result, Fetch apiUrl (createRequestPayload (formDataToObject (entries f)) None) # cs)"
    by blast
  with g True show ?thesis
    by (simp add: handleFormSubmit_def Let_def case_prod_beta)
qed

text \<open>
  C6. If \<open>isValid()\<close> reports false, that is, the form exists and its \<open>checkValidity()\<close>
  is false, \<open>handleFormSubmit\<close> returns false having focused the first element matching
  \<open>:invalid\<close> (when the form has one) and added \<open>was-validated\<close> to the form's classes.
  It makes no \<open>fetch\<close>, and the status presenter is as it was: no message is shown.
\<close>

theorem handleFormSubmit_form_invalid:
  assumes "FormHandler_isValid fh = Some False"
  shows "\<exists>f. form fh = Some f
     \<and> handleFormSubmit h fh rh apiUrl opts =
         Inr \<lparr>returned = False,
              formHandler = fh\<lparr>form := Some (f\<lparr>formClasses :=
                               classList_add (formClasses f) (js ''was-validated'')\<rparr>)\<rparr>,
              responseHandler = rh,
              events = map Focus (take 1 (invalidFields f))\<rparr>
     \<and> js ''was-validated'' \<in> set (classList_add (formClasses f) (js ''was-validated''))
     \<and> filter isFetch (map Focus (take 1 (invalidFields f))) = []"
proof -
  from assms obtain f where f: "form fh = Some f" "\<not> checkValidity f"
    by (auto simp: FormHandler_isValid_def split: option.splits)
  have ev: "focusInvalidField fh = map Focus (take 1 (invalidFields f))"
    using f by (cases "invalidFields f") (simp_all add: focusInvalidField_def getInvalidFields_def)
  have "handleFormSubmit h fh rh apiUrl opts =
         Inr \<lparr>returned = False,
              formHandler = fh\<lparr>form := Some (f\<lparr>formClasses :=
                               classList_add (formClasses f) (js ''was-validated'')\<rparr>)\<rparr>,
              responseHandler = rh,
              events = map Focus (take 1 (invalidFields f))\<rparr>"
    using assms f ev by (simp add: handleFormSubmit_def Let_def addValidationClass_def)
  moreover have "js ''was-validated'' \<in> set (classList_add (formClasses f) (js ''was-validated''))"
    by (simp add: classList_add_def)
  moreover have "filter isFetch (map Focus (take 1 (invalidFields f))) = []"
    by (cases "invalidFields f") (simp_all add: isFetch_def)
  ultimately show ?thesis using f by blast
qed

theorem handleFormSubmit_form_invalid_witness:
  "handleFormSubmit \<lparr>clock1 = 1, clock2 = 2, network = Responded 200 (Parsed JNull)\<rparr>
      (exampleFormHandler False [4, 7] [(js ''email'', js ''not-an-address'')])
      (newResponseHandler (Some exampleElement)) (js ''/submit'') noOptions
   = Inr \<lparr>returned = False,
          formHandler =
            \<lparr>form = Some \<lparr>checkValidity = False, invalidFields = [4, 7],
                           entries = [(js ''email'', js ''not-an-address'')],
                           formClasses = [js ''contact-form'', js ''was-validated'']\<rparr>,
             fh_resultElement = None, isSubmitting = False\<rparr>,
          responseHandler = newResponseHandler (Some exampleElement),
          events = [Focus 4]\<rparr>"
  using handleFormSubmit_form_invalid
          [where fh = "exampleFormHandler False [4, 7] [(js ''email'', js ''not-an-address'')]"
             and h = "\<lparr>clock1 = 1, clock2 = 2, network = Responded 200 (Parsed JNull)\<rparr>"
             and rh = "newResponseHandler (Some exampleElement)"
             and apiUrl = "js ''/submit''" and opts = noOptions]
  by (simp add: exampleFormHandler_def FormHandler_isValid_def classList_add_def js_def)







end
